theory Spec2Isabelle
  imports Complex_Main "HOL-Library.AList" "HOL-Library.Char_ord" "HOL-Library.List_Lexorder"
begin

section \<open>The Go library, as far as package dmweb calls it\<close>

text \<open>
  Package \<^verbatim>\<open>dmweb\<close> (files \<^verbatim>\<open>dmweb.go\<close> and \<^verbatim>\<open>types.go\<close>) is a thin client: it builds a
  URL with \<^verbatim>\<open>net/url\<close>, sends it with \<^verbatim>\<open>net/http\<close> and decodes the answer with
  \<^verbatim>\<open>encoding/json\<close>. The library functions it calls come first. Those whose behaviour
  cannot be written down here are parameters, collected in the record \<open>golib\<close>: the
  rounding of a number literal to a \<^verbatim>\<open>float64\<close>, the parsing of an RFC 3339 time, the
  check \<^verbatim>\<open>url.Parse\<close> makes inside \<^verbatim>\<open>http.NewRequest\<close>, and the text of the errors the
  library creates. The type variables \<open>'f\<close> and \<open>'t\<close> stand for \<^verbatim>\<open>float64\<close> and
  \<^verbatim>\<open>time.Time\<close>.
\<close>

subsection \<open>JSON documents, Go types and Go values\<close>

text \<open>
  A JSON number is kept as its literal: \<open>IntLit n\<close> is a literal without fraction and
  exponent part, \<open>FracLit r\<close> a literal that has one, of value \<open>r\<close> (\<^verbatim>\<open>1.5\<close> is
  \<open>FracLit (3/2)\<close>, \<^verbatim>\<open>1.0\<close> is \<open>FracLit 1\<close>). The members of an object are kept in the
  order of the text, duplicates included: the decoder visits them in that order.
\<close>

datatype number = IntLit int | FracLit rat

datatype json =
    JNull
  | JBool bool
  | JNumber number
  | JString string
  | JArray "json list"
  | JObject "(string \<times> json) list"

text \<open>
  \<^verbatim>\<open>encoding/json\<close> decodes by reflection over the type of its target, so the types of
  \<^verbatim>\<open>types.go\<close> are data here: a struct type lists, for every field, the Go name, the JSON
  key (the \<^verbatim>\<open>json:"..."\<close> tag when there is one, the Go name otherwise) and the type. The
  option \<^verbatim>\<open>omitempty\<close> of a tag only matters for encoding and is not recorded.
\<close>

datatype gotype =
    TBool
  | TInt
  | TFloat64
  | TString
  | TTime
  | TPtr gotype
  | TSlice gotype
  | TStruct "(string \<times> string \<times> gotype) list"

text \<open>
  \<open>VNil\<close> is the nil pointer and the nil slice. A slice is its elements followed by what
  is left of its backing array behind them: the decoder reuses that memory when the same
  key comes twice in an object.
\<close>

datatype ('f, 't) goval =
    VBool bool
  | VInt int
  | VFloat 'f
  | VString string
  | VTime 't
  | VNil
  | VPtr "('f, 't) goval"
  | VSlice "('f, 't) goval list" "('f, 't) goval list"
  | VStruct "(string \<times> ('f, 't) goval) list"

subsection \<open>Errors\<close>

text \<open>
  \<open>errors_New s\<close> is the value of \<^verbatim>\<open>errors.New(s)\<close>, known by its text alone. The other
  constructors are the errors of the library: the \<^verbatim>\<open>UnmarshalTypeError\<close> of
  \<^verbatim>\<open>encoding/json\<close> with the JSON value it met and the Go type it wanted, the error of
  \<^verbatim>\<open>Time.UnmarshalJSON\<close>, and any other error (of the transport, of reading or scanning
  a body, of parsing a URL).
\<close>

datatype jkind = KNumber number | KString | KBool | KArray | KObject

datatype error =
    errors_New string
  | UnmarshalTypeError jkind gotype
  | TimeUnmarshalError json
  | LibraryError string

record ('f, 't) golib =
  ParseFloat :: "number \<Rightarrow> 'f option"
  zeroFloat :: 'f
  ParseTime :: "string \<Rightarrow> 't option"
  zeroTime :: 't
  url_Parse :: "string \<Rightarrow> error option"
  ErrorText :: "error \<Rightarrow> string"

fun Error :: "('f, 't) golib \<Rightarrow> error \<Rightarrow> string" where
  "Error lib (errors_New s) = s"
| "Error lib e = ErrorText lib e"

subsection \<open>encoding/json: decoding into a typed value\<close>

fun zero_value :: "('f, 't) golib \<Rightarrow> gotype \<Rightarrow> ('f, 't) goval" where
  "zero_value lib TBool = VBool False"
| "zero_value lib TInt = VInt 0"
| "zero_value lib TFloat64 = VFloat (zeroFloat lib)"
| "zero_value lib TString = VString []"
| "zero_value lib TTime = VTime (zeroTime lib)"
| "zero_value lib (TPtr t) = VNil"
| "zero_value lib (TSlice t) = VNil"
| "zero_value lib (TStruct fs) = VStruct (map (\<lambda>(n, k, t). (n, zero_value lib t)) fs)"

text \<open>
  A key of the document selects the field whose JSON key is equal to it or, failing that,
  equal to it after folding: ASCII letters to upper case, and the two runes that fold to
  an ASCII letter, U+017F (bytes C5 BF) to S and U+212A (bytes E2 84 AA) to K.
\<close>

definition in_range :: "char \<Rightarrow> char \<Rightarrow> char \<Rightarrow> bool" where
  "in_range lo hi c \<longleftrightarrow> lo \<le> c \<and> c \<le> hi"

definition toUpper :: "char \<Rightarrow> char" where
  "toUpper c = (if in_range (CHR ''a'') (CHR ''z'') c then char_of (of_char c - (32::nat)) else c)"

fun foldName :: "string \<Rightarrow> string" where
  "foldName (c # d # e # cs) =
     (if c = CHR 0xC5 \<and> d = CHR 0xBF then CHR ''S'' # foldName (e # cs)
      else if c = CHR 0xE2 \<and> d = CHR 0x84 \<and> e = CHR 0xAA then CHR ''K'' # foldName cs
      else toUpper c # foldName (d # e # cs))"
| "foldName [c, d] = (if c = CHR 0xC5 \<and> d = CHR 0xBF then ''S'' else [toUpper c, toUpper d])"
| "foldName [c] = [toUpper c]"
| "foldName [] = []"

definition find_field ::
    "(string \<times> string \<times> gotype) list \<Rightarrow> string \<Rightarrow> (string \<times> string \<times> gotype) option" where
  "find_field fs key =
     (case find (\<lambda>(n, k, t). k = key) fs of
        Some f \<Rightarrow> Some f
      | None \<Rightarrow> find (\<lambda>(n, k, t). foldName k = foldName key) fs)"

text \<open>
  An \<^verbatim>\<open>int\<close> has 64 bits. \<^verbatim>\<open>strconv.ParseInt\<close> accepts a literal without fraction and
  exponent that is in range, and nothing else.
\<close>

definition intSize :: nat where
  "intSize = 64"

fun ParseInt :: "number \<Rightarrow> int option" where
  "ParseInt (IntLit n) =
     (if - (2 ^ (intSize - 1)) \<le> n \<and> n < 2 ^ (intSize - 1) then Some n else None)"
| "ParseInt (FracLit r) = None"

text \<open>
  The decoder keeps the first type error it meets and goes on (\<open>saveError\<close>); the error
  of an \<^verbatim>\<open>Unmarshaler\<close> (here \<^verbatim>\<open>time.Time\<close>) stops it at once. Either way the target keeps
  what was stored before.
\<close>

definition saveError :: "error option \<Rightarrow> error \<Rightarrow> error option" where
  "saveError saved err = (case saved of None \<Rightarrow> Some err | Some e \<Rightarrow> Some e)"

definition field_get ::
    "('f, 't) golib \<Rightarrow> string \<Rightarrow> gotype \<Rightarrow> (string \<times> ('f, 't) goval) list \<Rightarrow> ('f, 't) goval" where
  "field_get lib name t v = (case map_of v name of Some x \<Rightarrow> x | None \<Rightarrow> zero_value lib t)"

definition struct_fields ::
    "('f, 't) golib \<Rightarrow> gotype \<Rightarrow> ('f, 't) goval \<Rightarrow> (string \<times> ('f, 't) goval) list" where
  "struct_fields lib ty v =
     (case v of
        VStruct xs \<Rightarrow> xs
      | _ \<Rightarrow> (case zero_value lib ty of VStruct xs \<Rightarrow> xs | _ \<Rightarrow> []))"

fun slice_live :: "('f, 't) goval \<Rightarrow> ('f, 't) goval list" where
  "slice_live (VSlice live stale) = live"
| "slice_live v = []"

fun slice_stale :: "('f, 't) goval \<Rightarrow> ('f, 't) goval list" where
  "slice_stale (VSlice live stale) = stale"
| "slice_stale v = []"

fun pointee :: "('f, 't) golib \<Rightarrow> gotype \<Rightarrow> ('f, 't) goval \<Rightarrow> ('f, 't) goval" where
  "pointee lib t (VPtr p) = p"
| "pointee lib t v = zero_value lib t"

text \<open>
  \<open>decode_value lib ty j v saved\<close> stores the JSON value \<open>j\<close> into the target \<open>v\<close> of
  type \<open>ty\<close>, as \<^verbatim>\<open>decodeState.value\<close> does with its \<^verbatim>\<open>literalStore\<close>, \<^verbatim>\<open>array\<close> and
  \<^verbatim>\<open>object\<close>. It returns the target, the saved error and the error that stopped it, if
  any. \<^verbatim>\<open>null\<close> clears a pointer or a slice and leaves everything else as it is. An
  array is stored element by element over the backing array of the slice, which is cut to
  the number of elements at the end.
\<close>

fun decode_value ::
    "('f, 't) golib \<Rightarrow> gotype \<Rightarrow> json \<Rightarrow> ('f, 't) goval \<Rightarrow> error option
      \<Rightarrow> ('f, 't) goval \<times> error option \<times> error option"
  and decode_array ::
    "('f, 't) golib \<Rightarrow> gotype \<Rightarrow> json list \<Rightarrow> ('f, 't) goval list \<Rightarrow> error option
      \<Rightarrow> ('f, 't) goval list \<times> ('f, 't) goval list \<times> error option \<times> error option"
  and decode_object ::
    "('f, 't) golib \<Rightarrow> (string \<times> string \<times> gotype) list \<Rightarrow> (string \<times> json) list
      \<Rightarrow> (string \<times> ('f, 't) goval) list \<Rightarrow> error option
      \<Rightarrow> (string \<times> ('f, 't) goval) list \<times> error option \<times> error option"
where
  "decode_value lib TTime JNull v saved = (v, saved, None)"
| "decode_value lib TTime (JString s) v saved =
     (case ParseTime lib s of
        Some t \<Rightarrow> (VTime t, saved, None)
      | None \<Rightarrow> (VTime (zeroTime lib), saved, Some (TimeUnmarshalError (JString s))))"
| "decode_value lib TTime j v saved = (v, saved, Some (TimeUnmarshalError j))"
| "decode_value lib (TPtr t) JNull v saved = (VNil, saved, None)"
| "decode_value lib (TPtr t) j v saved =
     (case decode_value lib t j (pointee lib t v) saved of
        (p, saved', hard) \<Rightarrow> (VPtr p, saved', hard))"
| "decode_value lib (TSlice t) JNull v saved = (VNil, saved, None)"
| "decode_value lib ty JNull v saved = (v, saved, None)"
| "decode_value lib TBool (JBool b) v saved = (VBool b, saved, None)"
| "decode_value lib TInt (JNumber n) v saved =
     (case ParseInt n of
        Some i \<Rightarrow> (VInt i, saved, None)
      | None \<Rightarrow> (v, saveError saved (UnmarshalTypeError (KNumber n) TInt), None))"
| "decode_value lib TFloat64 (JNumber n) v saved =
     (case ParseFloat lib n of
        Some f \<Rightarrow> (VFloat f, saved, None)
      | None \<Rightarrow> (v, saveError saved (UnmarshalTypeError (KNumber n) TFloat64), None))"
| "decode_value lib TString (JString s) v saved = (VString s, saved, None)"
| "decode_value lib (TSlice t) (JArray js) v saved =
     (case decode_array lib t js (slice_live v @ slice_stale v) saved of
        (es, rest, saved', None) \<Rightarrow>
          (if js = [] then VSlice [] [] else VSlice es rest, saved', None)
      | (es, rest, saved', Some err) \<Rightarrow>
          (VSlice (es @ take (length (slice_live v) - length es) rest)
                  (drop (length (slice_live v) - length es) rest), saved', Some err))"
| "decode_value lib (TStruct fs) (JObject kvs) v saved =
     (case decode_object lib fs kvs (struct_fields lib (TStruct fs) v) saved of
        (xs, saved', hard) \<Rightarrow> (VStruct xs, saved', hard))"
| "decode_value lib ty (JBool b) v saved =
     (v, saveError saved (UnmarshalTypeError KBool ty), None)"
| "decode_value lib ty (JNumber n) v saved =
     (v, saveError saved (UnmarshalTypeError (KNumber n) ty), None)"
| "decode_value lib ty (JString s) v saved =
     (v, saveError saved (UnmarshalTypeError KString ty), None)"
| "decode_value lib ty (JArray js) v saved =
     (v, saveError saved (UnmarshalTypeError KArray ty), None)"
| "decode_value lib ty (JObject kvs) v saved =
     (v, saveError saved (UnmarshalTypeError KObject ty), None)"
| "decode_array lib t [] backing saved = ([], backing, saved, None)"
| "decode_array lib t (j # js) backing saved =
     (case decode_value lib t j (case backing of [] \<Rightarrow> zero_value lib t | b # bs \<Rightarrow> b) saved of
        (e, saved', Some err) \<Rightarrow> ([e], tl backing, saved', Some err)
      | (e, saved', None) \<Rightarrow>
          (case decode_array lib t js (tl backing) saved' of
             (es, rest, saved'', hard) \<Rightarrow> (e # es, rest, saved'', hard)))"
| "decode_object lib fs [] v saved = (v, saved, None)"
| "decode_object lib fs ((key, j) # kvs) v saved =
     (case find_field fs key of
        None \<Rightarrow> decode_object lib fs kvs v saved
      | Some (name, k, t) \<Rightarrow>
          (case decode_value lib t j (field_get lib name t v) saved of
             (x, saved', Some err) \<Rightarrow> (AList.update name x v, saved', Some err)
           | (x, saved', None) \<Rightarrow> decode_object lib fs kvs (AList.update name x v) saved'))"

text \<open>
  \<^verbatim>\<open>Unmarshal\<close> returns the error that stopped the decoder, and the saved one otherwise.
\<close>

definition unmarshal :: "('f, 't) golib \<Rightarrow> gotype \<Rightarrow> json \<Rightarrow> ('f, 't) goval \<Rightarrow> ('f, 't) goval \<times> error option" where
  "unmarshal lib ty j v =
     (case decode_value lib ty j v None of
        (v', saved, Some err) \<Rightarrow> (v', Some err)
      | (v', saved, None) \<Rightarrow> (v', saved))"

text \<open>
  The body of a response is what \<^verbatim>\<open>Decoder.Decode\<close> finds at the head of the stream: the
  first JSON value, or the error of reading or scanning it (\<^verbatim>\<open>io.EOF\<close> on an empty
  body, a \<^verbatim>\<open>SyntaxError\<close>). In the second case the target is left as it was.
  \<open>Decode lib ty body\<close> is \<^verbatim>\<open>var s T; err = json.NewDecoder(body).Decode(&s)\<close>: the
  target starts as the zero value of the type, and the pair is \<open>(s, err)\<close>.
\<close>

definition Decode :: "('f, 't) golib \<Rightarrow> gotype \<Rightarrow> error + json \<Rightarrow> ('f, 't) goval \<times> error option" where
  "Decode lib ty body =
     (case body of
        Inl err \<Rightarrow> (zero_value lib ty, Some err)
      | Inr j \<Rightarrow> unmarshal lib ty j (zero_value lib ty))"

text \<open>Reading a field of a struct value, and the string in a value.\<close>

fun field :: "string \<Rightarrow> ('f, 't) goval \<Rightarrow> ('f, 't) goval" where
  "field name (VStruct xs) = (case map_of xs name of Some x \<Rightarrow> x | None \<Rightarrow> VNil)"
| "field name v = VNil"

fun string_of :: "('f, 't) goval \<Rightarrow> string" where
  "string_of (VString s) = s"
| "string_of v = []"

subsection \<open>net/url: query values and their encoding\<close>

text \<open>
  \<^verbatim>\<open>url.Values\<close> is a \<^verbatim>\<open>map[string][]string\<close>, here an association list with one entry
  per key; a missing key reads as the nil slice. \<^verbatim>\<open>Add\<close> appends to the values of the key.
\<close>

type_synonym Values = "(string \<times> string list) list"

definition Values_lookup :: "Values \<Rightarrow> string \<Rightarrow> string list" where
  "Values_lookup v key = (case map_of v key of Some vs \<Rightarrow> vs | None \<Rightarrow> [])"

definition Values_Add :: "Values \<Rightarrow> string \<Rightarrow> string \<Rightarrow> Values" where
  "Values_Add v key val = AList.update key (Values_lookup v key @ [val]) v"

definition Values_Get :: "Values \<Rightarrow> string \<Rightarrow> string" where
  "Values_Get v key = (case Values_lookup v key of [] \<Rightarrow> [] | x # xs \<Rightarrow> x)"

text \<open>
  \<^verbatim>\<open>QueryEscape\<close> keeps letters, digits and \<^verbatim>\<open>-_.~\<close>, writes a space as \<^verbatim>\<open>+\<close> and every
  other byte as \<^verbatim>\<open>%XX\<close> in upper-case hexadecimal.
\<close>

definition isAlnum :: "char \<Rightarrow> bool" where
  "isAlnum c \<longleftrightarrow>
     in_range (CHR ''a'') (CHR ''z'') c \<or> in_range (CHR ''A'') (CHR ''Z'') c
       \<or> in_range (CHR ''0'') (CHR ''9'') c"

definition shouldEscape :: "char \<Rightarrow> bool" where
  "shouldEscape c \<longleftrightarrow> \<not> (isAlnum c \<or> c \<in> set ''-_.~'')"

definition upperhex :: "nat \<Rightarrow> char" where
  "upperhex n = ''0123456789ABCDEF'' ! (n mod 16)"

definition escape_byte :: "char \<Rightarrow> string" where
  "escape_byte c =
     (if c = CHR '' '' then ''+''
      else if shouldEscape c then [CHR ''%'', upperhex (of_char c div 16), upperhex (of_char c mod 16)]
      else [c])"

definition QueryEscape :: "string \<Rightarrow> string" where
  "QueryEscape s = concat (map escape_byte s)"

text \<open>
  \<^verbatim>\<open>Encode\<close> writes \<^verbatim>\<open>key=value\<close> for every value of every key, the keys sorted,
  with \<^verbatim>\<open>&\<close> before every pair but the first.
\<close>

definition Encode_pair :: "string \<Rightarrow> string \<Rightarrow> string \<Rightarrow> string" where
  "Encode_pair buf key val =
     (if buf \<noteq> [] then buf @ ''&'' else buf) @ QueryEscape key @ ''='' @ QueryEscape val"

definition Values_Encode :: "Values \<Rightarrow> string" where
  "Values_Encode v =
     foldl (\<lambda>buf key. foldl (\<lambda>buf val. Encode_pair buf key val) buf (Values_lookup v key))
       [] (sort (map fst v))"

subsection \<open>strconv.Itoa\<close>

function nat_digits :: "nat \<Rightarrow> string" where
  "nat_digits n =
     (if n < 10 then [char_of (48 + n)]
      else nat_digits (n div 10) @ [char_of (48 + n mod 10)])"
  by pat_completeness auto
termination
  by (relation "measure id") auto

definition Itoa :: "int \<Rightarrow> string" where
  "Itoa i = (if i < 0 then CHR ''-'' # nat_digits (nat (- i)) else nat_digits (nat i))"

subsection \<open>net/http: requests, responses and the client\<close>

text \<open>
  A request is its method, its URL and its header. A response is its status code and its
  body. \<^verbatim>\<open>http.NewRequest\<close> with method \<^verbatim>\<open>GET\<close> fails only when the URL does not parse.
  An \<^verbatim>\<open>*http.Client\<close> is nil or the function its \<^verbatim>\<open>Do\<close> computes, from the request to the
  pair \<^verbatim>\<open>(res, err)\<close>; both components may be nil, as in Go.
\<close>

record http_Request =
  Method :: string
  URL :: string
  Header :: Values

record http_Response =
  StatusCode :: int
  Body :: "error + json"

type_synonym http_Client = "http_Request \<Rightarrow> http_Response option \<times> error option"

definition NewRequest ::
    "('f, 't) golib \<Rightarrow> string \<Rightarrow> string \<Rightarrow> http_Request option \<times> error option" where
  "NewRequest lib method url =
     (case url_Parse lib url of
        Some err \<Rightarrow> (None, Some err)
      | None \<Rightarrow> (Some \<lparr>Method = method, URL = url, Header = []\<rparr>, None))"

text \<open>
  What a call does besides returning: the requests it hands to the transport, the reads
  of a response body by a JSON decoder, and the closing of a response body. A call that
  dereferences nil panics.
\<close>

datatype event = HttpDo http_Request | BodyRead | BodyClose

datatype 'a go = Panics | Returns 'a

section \<open>types.go\<close>

record Client =
  Client :: "http_Client option"
  AccountID :: string
  Username :: string
  Password :: string
  DevID :: string
  baseURL :: string
  userAgent :: string

definition Tag :: gotype where
  "Tag = TStruct
     [(''ID'', ''id'', TInt),
      (''Name'', ''name'', TString),
      (''DataType'', ''dataType'', TString),
      (''Description'', ''description'', TString),
      (''AlarmHint'', ''alarmHint'', TString),
      (''Value'', ''value'', TFloat64),
      (''Quality'', ''quality'', TString),
      (''EwonTagID'', ''ewonTagId'', TInt)]"

definition Tags :: gotype where
  "Tags = TSlice (TPtr Tag)"

definition Ewon :: gotype where
  "Ewon = TStruct
     [(''ID'', ''id'', TInt),
      (''Name'', ''name'', TString),
      (''LastSynchroDate'', ''lastSynchroDate'', TTime),
      (''Tags'', ''tags'', Tags),
      (''TimeZone'', ''timeZone'', TString)]"

definition Ewons :: gotype where
  "Ewons = TSlice (TPtr Ewon)"

definition GetStatusResponse :: gotype where
  "GetStatusResponse = TStruct
     [(''HistoryCount'', ''historyCount'', TInt),
      (''EwonsCount'', ''ewonsCount'', TInt),
      (''Ewons'', ''ewons'', TSlice (TStruct
         [(''ID'', ''id'', TInt),
          (''Name'', ''name'', TString),
          (''HistoryCount'', ''historyCount'', TInt),
          (''FirstHistoryDate'', ''firstHistoryDate'', TTime),
          (''LastHistoryDate'', ''lastHistoryDate'', TTime)]))]"

text \<open>The element types of the two history slices have names here; in Go they are anonymous.\<close>

definition GetData_History :: gotype where
  "GetData_History = TStruct
     [(''Date'', ''date'', TTime),
      (''Quality'', ''quality'', TString),
      (''Value'', ''value'', TInt)]"

definition GetData_Tag :: gotype where
  "GetData_Tag = TStruct
     [(''ID'', ''id'', TInt),
      (''Name'', ''name'', TString),
      (''DataType'', ''dataType'', TString),
      (''Description'', ''description'', TString),
      (''AlarmHint'', ''alarmHint'', TString),
      (''Value'', ''value'', TInt),
      (''Quality'', ''quality'', TString),
      (''EwonTagID'', ''ewonTagId'', TInt),
      (''History'', ''history'', TSlice GetData_History)]"

definition GetDataResponse :: gotype where
  "GetDataResponse = TStruct
     [(''Success'', ''success'', TBool),
      (''MoreDataAvailable'', ''moreDataAvailable'', TBool),
      (''Ewons'', ''ewons'', TSlice (TStruct
         [(''ID'', ''id'', TInt),
          (''Name'', ''name'', TString),
          (''Tags'', ''tags'', TSlice GetData_Tag),
          (''LastSynchroDate'', ''lastSynchroDate'', TTime),
          (''TimeZone'', ''timeZone'', TString)]))]"

definition Sync_History :: gotype where
  "Sync_History = TStruct
     [(''Date'', ''date'', TTime),
      (''DataType'', ''dataType'', TString),
      (''Value'', ''value'', TFloat64)]"

definition Sync_Tag :: gotype where
  "Sync_Tag = TStruct
     [(''ID'', ''id'', TInt),
      (''Name'', ''name'', TString),
      (''DataType'', ''dataType'', TString),
      (''Description'', ''description'', TString),
      (''AlarmHint'', ''alarmHint'', TString),
      (''Value'', ''value'', TFloat64),
      (''Quality'', ''quality'', TString),
      (''EwonTagID'', ''ewonTagId'', TInt),
      (''History'', ''history'', TSlice Sync_History)]"

definition SyncResponse :: gotype where
  "SyncResponse = TStruct
     [(''Success'', ''success'', TBool),
      (''TransactionID'', ''transactionId'', TString),
      (''MoreDataAvailable'', ''moreDataAvailable'', TBool),
      (''Ewons'', ''ewons'', TSlice (TStruct
         [(''ID'', ''id'', TInt),
          (''Name'', ''name'', TString),
          (''Tags'', ''tags'', TSlice Sync_Tag),
          (''LastSynchroDate'', ''lastSynchroDate'', TTime)]))]"

definition errorResponse :: gotype where
  "errorResponse = TStruct
     [(''Success'', ''success'', TBool),
      (''Code'', ''code'', TInt),
      (''Message'', ''message'', TString)]"

section \<open>dmweb.go\<close>

definition DefaultBaseURL :: string where
  "DefaultBaseURL = ''https://data.talk2m.com/''"

definition DefaultUserAgent :: string where
  "DefaultUserAgent = ''go-ewon/dmweb 0.1''"

definition errorMissingCredentials :: error where
  "errorMissingCredentials = errors_New ''missing one or more credentials''"

definition errorCouldNotParseArgument :: error where
  "errorCouldNotParseArgument = errors_New ''could not parse argument''"

text \<open>
  A Go function that returns \<^verbatim>\<open>(x, err)\<close> returns a pair here, \<open>None\<close> for a nil pointer
  and for a nil error.
\<close>

definition New ::
    "http_Client option \<Rightarrow> string \<Rightarrow> string \<Rightarrow> string \<Rightarrow> string \<Rightarrow> Client option \<times> error option" where
  "New h accountID username password developerID =
     (if accountID = [] \<or> username = [] \<or> password = [] \<or> developerID = []
      then (None, Some errorMissingCredentials)
      else (Some \<lparr>Client = h, AccountID = accountID, Username = username,
                   Password = password, DevID = developerID,
                   baseURL = DefaultBaseURL, userAgent = DefaultUserAgent\<rparr>, None))"

text \<open>
  \<open>merge_params v params\<close> is the loop of \<^verbatim>\<open>buildURL\<close> over \<^verbatim>\<open>params\<close>; the order of
  the list stands for the order in which Go happens to visit the map.
\<close>

definition merge_params :: "Values \<Rightarrow> Values \<Rightarrow> Values" where
  "merge_params v params =
     foldl (\<lambda>v (p, vals). foldl (\<lambda>v val. Values_Add v p val) v vals) v params"

definition credentials :: "Client \<Rightarrow> Values" where
  "credentials c =
     (let v = [];
          v = Values_Add v ''t2maccount'' (AccountID c);
          v = Values_Add v ''t2musername'' (Username c);
          v = Values_Add v ''t2mpassword'' (Password c);
          v = Values_Add v ''t2mdevid'' (DevID c)
      in v)"

definition buildURL :: "Client \<Rightarrow> string \<Rightarrow> Values \<Rightarrow> string" where
  "buildURL c endpoint params =
     baseURL c @ endpoint @ ''?'' @ Values_Encode (merge_params (credentials c) params)"

text \<open>
  Every function below returns its trace of events with its result. \<open>Request\<close> returns
  the response and the error as Go does; the typed operations return the decoded value
  (\<open>VPtr s\<close> for \<^verbatim>\<open>&s\<close>, \<open>VNil\<close> for nil) and the error.
\<close>

definition Request ::
    "('f, 't) golib \<Rightarrow> Client \<Rightarrow> string \<Rightarrow> Values
      \<Rightarrow> event list \<times> (http_Response option \<times> error option) go" where
  "Request lib c endpoint params =
     (case NewRequest lib ''GET'' (buildURL c endpoint params) of
        (req, Some err) \<Rightarrow> ([], Returns (None, Some err))
      | (None, None) \<Rightarrow> ([], Panics)
      | (Some req0, None) \<Rightarrow>
          (let req = req0\<lparr>Header := Values_Add (Header req0) ''User-Agent'' (userAgent c)\<rparr> in
           case Client c of
             None \<Rightarrow> ([], Panics)
           | Some h \<Rightarrow>
               (case h req of
                  (res, Some err) \<Rightarrow> ([HttpDo req], Returns (res, Some err))
                | (None, None) \<Rightarrow> ([HttpDo req], Panics)
                | (Some res, None) \<Rightarrow>
                    if StatusCode res \<noteq> 200 then
                      (case Decode lib errorResponse (Body res) of
                         (er, Some err) \<Rightarrow> ([HttpDo req, BodyRead], Returns (None, Some err))
                       | (er, None) \<Rightarrow>
                           ([HttpDo req, BodyRead],
                            Returns (None, Some (errors_New (string_of (field ''Message'' er))))))
                    else ([HttpDo req], Returns (Some res, None)))))"

definition GetStatus ::
    "('f, 't) golib \<Rightarrow> Client \<Rightarrow> event list \<times> (('f, 't) goval \<times> error option) go" where
  "GetStatus lib c =
     (case Request lib c ''getstatus'' [] of
        (tr, Panics) \<Rightarrow> (tr, Panics)
      | (tr, Returns (res, Some err)) \<Rightarrow> (tr, Returns (VNil, Some err))
      | (tr, Returns (None, None)) \<Rightarrow> (tr, Panics)
      | (tr, Returns (Some res, None)) \<Rightarrow>
          (case Decode lib GetStatusResponse (Body res) of
             (s, err) \<Rightarrow> (tr @ [BodyRead], Returns (VPtr s, err))))"

text \<open>The target of \<^verbatim>\<open>GetEwons\<close> is an anonymous struct without tags.\<close>

definition GetEwons_es :: gotype where
  "GetEwons_es = TStruct [(''Success'', ''Success'', TBool), (''Ewons'', ''Ewons'', Ewons)]"

definition GetEwons ::
    "('f, 't) golib \<Rightarrow> Client \<Rightarrow> event list \<times> (('f, 't) goval \<times> error option) go" where
  "GetEwons lib c =
     (case Request lib c ''getewons'' [] of
        (tr, Panics) \<Rightarrow> (tr, Panics)
      | (tr, Returns (res, Some err)) \<Rightarrow> (tr, Returns (VNil, Some err))
      | (tr, Returns (None, None)) \<Rightarrow> (tr, Panics)
      | (tr, Returns (Some res, None)) \<Rightarrow>
          (case Decode lib GetEwons_es (Body res) of
             (es, err) \<Rightarrow> (tr @ [BodyRead], Returns (field ''Ewons'' es, err))))"

text \<open>
  The argument of \<^verbatim>\<open>getEwonByIdentifier\<close> is an \<^verbatim>\<open>interface{}\<close>: an \<^verbatim>\<open>int\<close>, a
  \<^verbatim>\<open>string\<close>, or a value of any other dynamic type. \<open>getEwonByIdentifier_qs\<close> is the type
  switch that opens the function; \<open>None\<close> is its default branch.
\<close>

datatype any = AnyInt int | AnyString string | AnyOther

definition getEwonByIdentifier_qs :: "string \<Rightarrow> any \<Rightarrow> Values option" where
  "getEwonByIdentifier_qs qp i =
     (case i of
        AnyInt n \<Rightarrow> Some (Values_Add [] qp (Itoa n))
      | AnyString s \<Rightarrow> Some (Values_Add [] qp s)
      | AnyOther \<Rightarrow> None)"

definition getEwonByIdentifier ::
    "('f, 't) golib \<Rightarrow> Client \<Rightarrow> string \<Rightarrow> any
      \<Rightarrow> event list \<times> (('f, 't) goval \<times> error option) go" where
  "getEwonByIdentifier lib c qp i =
     (case getEwonByIdentifier_qs qp i of
        None \<Rightarrow> ([], Returns (VNil, Some errorCouldNotParseArgument))
      | Some qs \<Rightarrow>
          (case Request lib c ''getewon'' qs of
             (tr, Panics) \<Rightarrow> (tr, Panics)
           | (tr, Returns (res, Some err)) \<Rightarrow> (tr, Returns (VNil, Some err))
           | (tr, Returns (None, None)) \<Rightarrow> (tr, Panics)
           | (tr, Returns (Some res, None)) \<Rightarrow>
               (case Decode lib Ewon (Body res) of
                  (e, err) \<Rightarrow> (tr @ [BodyRead], Returns (VPtr e, err)))))"

definition GetEwonByID ::
    "('f, 't) golib \<Rightarrow> Client \<Rightarrow> int \<Rightarrow> event list \<times> (('f, 't) goval \<times> error option) go" where
  "GetEwonByID lib c ewonID = getEwonByIdentifier lib c ''id'' (AnyInt ewonID)"

definition GetEwonByName ::
    "('f, 't) golib \<Rightarrow> Client \<Rightarrow> string \<Rightarrow> event list \<times> (('f, 't) goval \<times> error option) go" where
  "GetEwonByName lib c name = getEwonByIdentifier lib c ''name'' (AnyString name)"

text \<open>
  The \<^verbatim>\<open>params\<close> of \<^verbatim>\<open>GetData\<close> are a \<^verbatim>\<open>map[string]string\<close>, a list of pairs in the order
  of the visit. \<open>GetData_qs\<close> is the loop that copies them into the query values.
\<close>

definition GetData_qs :: "(string \<times> string) list \<Rightarrow> Values" where
  "GetData_qs params = foldl (\<lambda>qs (k, v). Values_Add qs k v) [] params"

definition GetData ::
    "('f, 't) golib \<Rightarrow> Client \<Rightarrow> (string \<times> string) list
      \<Rightarrow> event list \<times> (('f, 't) goval \<times> error option) go" where
  "GetData lib c params =
     (case Request lib c ''getdata'' (GetData_qs params) of
        (tr, Panics) \<Rightarrow> (tr, Panics)
      | (tr, Returns (res, Some err)) \<Rightarrow> (tr, Returns (VNil, Some err))
      | (tr, Returns (None, None)) \<Rightarrow> (tr, Panics)
      | (tr, Returns (Some res, None)) \<Rightarrow>
          (case Decode lib GetDataResponse (Body res) of
             (d, err) \<Rightarrow> (tr @ [BodyRead], Returns (VPtr d, err))))"

text \<open>\<open>SyncData_qs\<close> is the two conditionals that open \<^verbatim>\<open>SyncData\<close>.\<close>

definition SyncData_qs :: "string \<Rightarrow> bool \<Rightarrow> Values" where
  "SyncData_qs lastTransactionID createTransaction =
     (let qs = [];
          qs = (if lastTransactionID \<noteq> [] then Values_Add qs ''lastTransactionId'' lastTransactionID else qs);
          qs = (if createTransaction then Values_Add qs ''createTransaction'' ''true'' else qs)
      in qs)"

definition SyncData ::
    "('f, 't) golib \<Rightarrow> Client \<Rightarrow> string \<Rightarrow> bool
      \<Rightarrow> event list \<times> (('f, 't) goval \<times> error option) go" where
  "SyncData lib c lastTransactionID createTransaction =
     (case Request lib c ''syncdata'' (SyncData_qs lastTransactionID createTransaction) of
        (tr, Panics) \<Rightarrow> (tr, Panics)
      | (tr, Returns (res, Some err)) \<Rightarrow> (tr, Returns (VNil, Some err))
      | (tr, Returns (None, None)) \<Rightarrow> (tr, Panics)
      | (tr, Returns (Some res, None)) \<Rightarrow>
          (case Decode lib SyncResponse (Body res) of
             (s, err) \<Rightarrow> (tr @ [BodyRead], Returns (VPtr s, err))))"

definition FirstSyncData ::
    "('f, 't) golib \<Rightarrow> Client \<Rightarrow> event list \<times> (('f, 't) goval \<times> error option) go" where
  "FirstSyncData lib c = SyncData lib c [] True"

section \<open>The exported operations as one function\<close>

text \<open>
  The methods a caller of the package can reach, with what each one passes to \<open>Request\<close>
  (the endpoint and the query values), the type it decodes the body into and what it
  returns of the decoded value. With them a statement can range over every operation.
\<close>

datatype operation =
    OpGetStatus
  | OpGetEwons
  | OpGetEwonByID int
  | OpGetEwonByName string
  | OpGetData "(string \<times> string) list"
  | OpSyncData string bool
  | OpFirstSyncData

fun perform ::
    "('f, 't) golib \<Rightarrow> Client \<Rightarrow> operation \<Rightarrow> event list \<times> (('f, 't) goval \<times> error option) go" where
  "perform lib c OpGetStatus = GetStatus lib c"
| "perform lib c OpGetEwons = GetEwons lib c"
| "perform lib c (OpGetEwonByID n) = GetEwonByID lib c n"
| "perform lib c (OpGetEwonByName name) = GetEwonByName lib c name"
| "perform lib c (OpGetData params) = GetData lib c params"
| "perform lib c (OpSyncData lastTransactionID createTransaction) =
     SyncData lib c lastTransactionID createTransaction"
| "perform lib c OpFirstSyncData = FirstSyncData lib c"

fun endpoint_of :: "operation \<Rightarrow> string" where
  "endpoint_of OpGetStatus = ''getstatus''"
| "endpoint_of OpGetEwons = ''getewons''"
| "endpoint_of (OpGetEwonByID n) = ''getewon''"
| "endpoint_of (OpGetEwonByName name) = ''getewon''"
| "endpoint_of (OpGetData params) = ''getdata''"
| "endpoint_of (OpSyncData lastTransactionID createTransaction) = ''syncdata''"
| "endpoint_of OpFirstSyncData = ''syncdata''"

fun params_of :: "operation \<Rightarrow> Values" where
  "params_of OpGetStatus = []"
| "params_of OpGetEwons = []"
| "params_of (OpGetEwonByID n) = [(''id'', [Itoa n])]"
| "params_of (OpGetEwonByName name) = [(''name'', [name])]"
| "params_of (OpGetData params) = GetData_qs params"
| "params_of (OpSyncData lastTransactionID createTransaction) =
     SyncData_qs lastTransactionID createTransaction"
| "params_of OpFirstSyncData = [(''createTransaction'', [''true''])]"

fun target_of :: "operation \<Rightarrow> gotype" where
  "target_of OpGetStatus = GetStatusResponse"
| "target_of OpGetEwons = GetEwons_es"
| "target_of (OpGetEwonByID n) = Ewon"
| "target_of (OpGetEwonByName name) = Ewon"
| "target_of (OpGetData params) = GetDataResponse"
| "target_of (OpSyncData lastTransactionID createTransaction) = SyncResponse"
| "target_of OpFirstSyncData = SyncResponse"

fun result_of :: "operation \<Rightarrow> ('f, 't) goval \<Rightarrow> ('f, 't) goval" where
  "result_of OpGetEwons es = field ''Ewons'' es"
| "result_of op s = VPtr s"

text \<open>
  The request the specification describes: a GET of the built URL that carries the
  user agent of the client and nothing else in its header.
\<close>

definition the_request :: "Client \<Rightarrow> string \<Rightarrow> Values \<Rightarrow> http_Request" where
  "the_request c endpoint params =
     \<lparr>Method = ''GET'', URL = buildURL c endpoint params,
      Header = [(''User-Agent'', [userAgent c])]\<rparr>"

section \<open>Examples\<close>

text \<open>
  A library for the examples: a \<^verbatim>\<open>float64\<close> is the rational it holds, a time is the text
  it was parsed from, and the texts that parse are those of the shape
  \<^verbatim>\<open>2018-11-08T14:17:58Z\<close> (twenty characters, the last one \<^verbatim>\<open>Z\<close>). Every URL parses.
\<close>

definition example_lib :: "(rat, string) golib" where
  "example_lib =
     \<lparr>ParseFloat = (\<lambda>n. case n of IntLit i \<Rightarrow> Some (of_int i) | FracLit r \<Rightarrow> Some r),
      zeroFloat = 0,
      ParseTime = (\<lambda>s. if length s = 20 \<and> last s = CHR ''Z'' then Some s else None),
      zeroTime = ''0001-01-01T00:00:00Z'',
      url_Parse = (\<lambda>u. None),
      ErrorText = (\<lambda>e. ''library error'')\<rparr>"

text \<open>
  The client of the tests in \<^verbatim>\<open>dmweb_test.go\<close>: its transport answers every request
  with the same response.
\<close>

definition example_client :: "http_Response \<Rightarrow> Client" where
  "example_client res =
     \<lparr>Client = Some (\<lambda>req. (Some res, None)),
      AccountID = ''aid'', Username = ''username'', Password = ''password'', DevID = ''devid'',
      baseURL = DefaultBaseURL, userAgent = DefaultUserAgent\<rparr>"

definition error_envelope :: "int \<Rightarrow> string \<Rightarrow> json" where
  "error_envelope code message =
     JObject [(''success'', JBool False), (''code'', JNumber (IntLit code)),
              (''message'', JString message)]"

definition response_401 :: http_Response where
  "response_401 = \<lparr>StatusCode = 401, Body = Inr (error_envelope 401 ''Invalid credentials'')\<rparr>"

text \<open>The answer to \<^verbatim>\<open>getstatus\<close> in the tests.\<close>

definition response_status :: http_Response where
  "response_status =
     \<lparr>StatusCode = 200,
      Body = Inr (JObject
        [(''historyCount'', JNumber (IntLit 20732)),
         (''ewonsCount'', JNumber (IntLit 2)),
         (''ewons'', JArray
           [JObject
              [(''id'', JNumber (IntLit 2)),
               (''name'', JString ''Paris''),
               (''historyCount'', JNumber (IntLit 2702)),
               (''firstHistoryDate'', JString ''2015-07-16T16:04:25Z''),
               (''lastHistoryDate'', JString ''2015-07-17T17:43:36Z'')],
            JObject
              [(''id'', JNumber (IntLit 190)),
               (''name'', JString ''Brussels''),
               (''historyCount'', JNumber (IntLit 18030)),
               (''firstHistoryDate'', JString ''2015-08-24T08:56:44Z''),
               (''lastHistoryDate'', JString ''2015-08-24T14:57:13Z'')]])])\<rparr>"

text \<open>
  Two answers of the service with the same message under different codes, and an answer
  to \<^verbatim>\<open>getstatus\<close> whose second member has the wrong type.
\<close>

definition response_denied :: "int \<Rightarrow> http_Response" where
  "response_denied code = \<lparr>StatusCode = code, Body = Inr (error_envelope code ''denied'')\<rparr>"

definition response_partial :: http_Response where
  "response_partial =
     \<lparr>StatusCode = 200,
      Body = Inr (JObject [(''historyCount'', JNumber (IntLit 20732)),
                           (''ewonsCount'', JString ''two'')])\<rparr>"

section \<open>Properties\<close>

subsection \<open>Auxiliary facts\<close>

lemma QueryEscape_Nil: "QueryEscape [] = []"
  by (simp add: QueryEscape_def)

lemma QueryEscape_Cons: "QueryEscape (c # cs) = escape_byte c @ QueryEscape cs"
  by (simp add: QueryEscape_def)

lemmas escape_simps = QueryEscape_Nil QueryEscape_Cons escape_byte_def shouldEscape_def isAlnum_def
  in_range_def upperhex_def

lemmas url_simps = buildURL_def merge_params_def credentials_def Values_Add_def Values_lookup_def
      Values_Encode_def Encode_pair_def Let_def

text \<open>
  \<open>Request\<close> by cases: the URL does not parse; the client is nil; the transport fails;
  the status is not 200; the status is 200.
\<close>

lemma Request_unfold:
  "Request lib c endpoint params =
     (case url_Parse lib (buildURL c endpoint params) of
        Some err \<Rightarrow> ([], Returns (None, Some err))
      | None \<Rightarrow>
          (case Client c of
             None \<Rightarrow> ([], Panics)
           | Some h \<Rightarrow>
               (case h (the_request c endpoint params) of
                  (res, Some err) \<Rightarrow> ([HttpDo (the_request c endpoint params)], Returns (res, Some err))
                | (None, None) \<Rightarrow> ([HttpDo (the_request c endpoint params)], Panics)
                | (Some res, None) \<Rightarrow>
                    if StatusCode res \<noteq> 200 then
                      ([HttpDo (the_request c endpoint params), BodyRead],
                       Returns (None, Some
                         (case Decode lib errorResponse (Body res) of
                            (er, Some err) \<Rightarrow> err
                          | (er, None) \<Rightarrow> errors_New (string_of (field ''Message'' er)))))
                    else ([HttpDo (the_request c endpoint params)], Returns (Some res, None)))))"
  by (simp add: Request_def NewRequest_def the_request_def Values_Add_def Values_lookup_def Let_def
      split: option.splits prod.splits)

text \<open>Every operation is a call of \<open>Request\<close> followed by the decoding of a 200 body.\<close>

lemma perform_unfold:
  "perform lib c op =
     (case Request lib c (endpoint_of op) (params_of op) of
        (tr, Panics) \<Rightarrow> (tr, Panics)
      | (tr, Returns (res, Some err)) \<Rightarrow> (tr, Returns (VNil, Some err))
      | (tr, Returns (None, None)) \<Rightarrow> (tr, Panics)
      | (tr, Returns (Some res, None)) \<Rightarrow>
          (case Decode lib (target_of op) (Body res) of
             (s, err) \<Rightarrow> (tr @ [BodyRead], Returns (result_of op s, err))))"
  by (induct op)
     (simp_all add: GetStatus_def GetEwons_def GetEwonByID_def GetEwonByName_def GetData_def
        SyncData_def FirstSyncData_def getEwonByIdentifier_def getEwonByIdentifier_qs_def
        SyncData_qs_def Values_Add_def Values_lookup_def Let_def
        cong: prod.case_cong go.case_cong option.case_cong)


subsection \<open>Construction\<close>

text \<open>
  Claim C3. \<^verbatim>\<open>New\<close> fails with \<open>errorMissingCredentials\<close> if and only if one of the four
  credential strings is empty. When none is, it succeeds for every transport (the nil
  one included) and every four strings: the client has the default base URL, the default
  user agent and the arguments as they were given, so nothing else is validated.
\<close>

theorem New_credentials:
  "(New h accountID username password developerID = (None, Some errorMissingCredentials))
     = (accountID = [] \<or> username = [] \<or> password = [] \<or> developerID = [])
   \<and> (accountID \<noteq> [] \<and> username \<noteq> [] \<and> password \<noteq> [] \<and> developerID \<noteq> [] \<longrightarrow>
        (\<exists>c. New h accountID username password developerID = (Some c, None)
          \<and> baseURL c = DefaultBaseURL \<and> userAgent c = DefaultUserAgent
          \<and> Client c = h \<and> AccountID c = accountID \<and> Username c = username
          \<and> Password c = password \<and> DevID c = developerID))"
  by (simp add: New_def)

theorem New_credentials_witness:
  "(\<exists>c. New None ''accountid'' ''username'' ''password'' ''did'' = (Some c, None)
      \<and> baseURL c = ''https://data.talk2m.com/'' \<and> userAgent c = ''go-ewon/dmweb 0.1'')
   \<and> New None ''accountid'' ''username'' ''password'' [] = (None, Some errorMissingCredentials)"
  using New_credentials [of None "''accountid''" "''username''" "''password''" "''did''"]
        New_credentials [of None "''accountid''" "''username''" "''password''" "[]"]
  by (auto simp: DefaultBaseURL_def DefaultUserAgent_def)

lemma example_client_sel:
  "Client (example_client res) = Some (\<lambda>req. (Some res, None))"
  "baseURL (example_client res) = DefaultBaseURL"
  "userAgent (example_client res) = DefaultUserAgent"
  by (simp_all add: example_client_def)

lemma example_lib_url: "url_Parse example_lib u = None"
  by (simp add: example_lib_def)

lemma decode_401:
  "Decode example_lib errorResponse (Body response_401) =
     (VStruct [(''Success'', VBool False), (''Code'', VInt 401), (''Message'', VString ''Invalid credentials'')], None)"
  by code_simp

subsection \<open>Errors of the service\<close>

text \<open>
  Claim C1. When the transport answers with a status other than 200, \<open>Request\<close> decodes
  an \<open>errorResponse\<close> from the body and returns no response and an error: the error of
  the decoding when it fails, and otherwise \<^verbatim>\<open>errors.New\<close> of the message of the
  envelope, whose text is that message. Every operation that sends this request returns
  nil and the same error, whatever its endpoint.
\<close>

theorem non200_envelope_error:
  assumes "Client c = Some h"
      and "url_Parse lib (buildURL c endpoint params) = None"
      and "h (the_request c endpoint params) = (Some res, None)"
      and "StatusCode res \<noteq> 200"
  shows "\<exists>e. snd (Request lib c endpoint params) = Returns (None, Some e)
           \<and> (\<forall>op. endpoint_of op = endpoint \<and> params_of op = params
                 \<longrightarrow> snd (perform lib c op) = Returns (VNil, Some e))
           \<and> (case Decode lib errorResponse (Body res) of
                (er, Some err) \<Rightarrow> e = err
              | (er, None) \<Rightarrow> e = errors_New (string_of (field ''Message'' er))
                                \<and> Error lib e = string_of (field ''Message'' er))"
  using assms
  by (simp add: Request_unfold perform_unfold split: prod.splits option.splits)

theorem non200_envelope_error_witness:
  "snd (Request example_lib (example_client response_401) ''getstatus'' [])
      = Returns (None, Some (errors_New ''Invalid credentials''))
   \<and> snd (perform example_lib (example_client response_401) OpGetStatus)
      = Returns (VNil, Some (errors_New ''Invalid credentials''))
   \<and> snd (perform example_lib (example_client response_401) (OpSyncData ''t1'' False))
      = Returns (VNil, Some (errors_New ''Invalid credentials''))
   \<and> Error example_lib (errors_New ''Invalid credentials'') = ''Invalid credentials''"
proof -
  have sc: "StatusCode response_401 \<noteq> 200"
    by (simp add: response_401_def)
  note a = non200_envelope_error [where endpoint = "''getstatus''" and params = "[]",
      OF example_client_sel(1) example_lib_url _ sc]
  note b = non200_envelope_error [where endpoint = "''syncdata''"
      and params = "SyncData_qs ''t1'' False", OF example_client_sel(1) example_lib_url _ sc]
  from a obtain e where e1: "snd (Request example_lib (example_client response_401) ''getstatus'' [])
        = Returns (None, Some e)"
      and e2: "\<forall>op. endpoint_of op = ''getstatus'' \<and> params_of op = []
        \<longrightarrow> snd (perform example_lib (example_client response_401) op) = Returns (VNil, Some e)"
      and e3: "e = errors_New ''Invalid credentials''"
    by (auto simp: decode_401)
  from b obtain e' where e2': "\<forall>op. endpoint_of op = ''syncdata'' \<and> params_of op = SyncData_qs ''t1'' False
        \<longrightarrow> snd (perform example_lib (example_client response_401) op) = Returns (VNil, Some e')"
      and e3': "e' = errors_New ''Invalid credentials''"
    by (auto simp: decode_401)
  have "endpoint_of OpGetStatus = ''getstatus'' \<and> params_of OpGetStatus = []"
    by simp
  with e2 have p1: "snd (perform example_lib (example_client response_401) OpGetStatus)
      = Returns (VNil, Some e)"
    by blast
  have "endpoint_of (OpSyncData ''t1'' False) = ''syncdata''
      \<and> params_of (OpSyncData ''t1'' False) = SyncData_qs ''t1'' False"
    by simp
  with e2' have p2: "snd (perform example_lib (example_client response_401) (OpSyncData ''t1'' False))
      = Returns (VNil, Some e')"
    by blast
  from e1 e3 e3' p1 p2 show ?thesis
    by simp
qed

subsection \<open>More auxiliary facts\<close>

text \<open>An operation, given what its call of \<open>Request\<close> returned.\<close>

lemma perform_cases:
  "Request lib c (endpoint_of op) (params_of op) = (tr, g) \<Longrightarrow>
   perform lib c op =
     (case g of
        Panics \<Rightarrow> (tr, Panics)
      | Returns (res, Some err) \<Rightarrow> (tr, Returns (VNil, Some err))
      | Returns (None, None) \<Rightarrow> (tr, Panics)
      | Returns (Some res, None) \<Rightarrow>
          (tr @ [BodyRead],
           Returns (result_of op (fst (Decode lib (target_of op) (Body res))),
                    snd (Decode lib (target_of op) (Body res)))))"
  by (simp add: perform_unfold split_beta cong: go.case_cong option.case_cong)

text \<open>The traces: at most one request, then at most two reads of the body.\<close>

lemma Request_trace:
  "fst (Request lib c endpoint params) = [] \<or>
   fst (Request lib c endpoint params) = [HttpDo (the_request c endpoint params)] \<or>
   fst (Request lib c endpoint params) = [HttpDo (the_request c endpoint params), BodyRead]"
  by (simp add: Request_unfold split: option.splits prod.splits)

lemma perform_trace:
  "fst (perform lib c op) = fst (Request lib c (endpoint_of op) (params_of op)) \<or>
   fst (perform lib c op) = fst (Request lib c (endpoint_of op) (params_of op)) @ [BodyRead]"
proof (cases "Request lib c (endpoint_of op) (params_of op)")
  case (Pair tr g)
  show ?thesis
  proof (cases g)
    case Panics
    with Pair show ?thesis
      by (simp add: perform_cases [OF Pair])
  next
    case (Returns p)
    obtain res err where p: "p = (res, err)"
      by (cases p)
    show ?thesis
      by (cases err; cases res) (simp_all add: perform_cases [OF Pair] Pair Returns p)
  qed
qed

lemma getEwonByIdentifier_trace:
  "fst (getEwonByIdentifier lib c qp i) = [] \<or>
   (\<exists>qs. fst (getEwonByIdentifier lib c qp i) = fst (Request lib c ''getewon'' qs) \<or>
         fst (getEwonByIdentifier lib c qp i) = fst (Request lib c ''getewon'' qs) @ [BodyRead])"
proof (cases "getEwonByIdentifier_qs qp i")
  case None
  then show ?thesis
    by (simp add: getEwonByIdentifier_def)
next
  case (Some qs)
  obtain tr g where R: "Request lib c ''getewon'' qs = (tr, g)"
    by (cases "Request lib c ''getewon'' qs")
  have "fst (getEwonByIdentifier lib c qp i) = tr \<or> fst (getEwonByIdentifier lib c qp i) = tr @ [BodyRead]"
  proof (cases g)
    case Panics
    with Some R show ?thesis
      by (simp add: getEwonByIdentifier_def)
  next
    case (Returns p)
    obtain res err where p: "p = (res, err)"
      by (cases p)
    show ?thesis
      by (cases err; cases res) (simp_all add: getEwonByIdentifier_def Some R Returns p split_beta)
  qed
  with R show ?thesis
    by (metis fst_conv)
qed

text \<open>The example client and its answers.\<close>

lemma Request_example:
  "Request example_lib (example_client res) endpoint params =
     (if StatusCode res \<noteq> 200 then
        ([HttpDo (the_request (example_client res) endpoint params), BodyRead],
         Returns (None, Some
           (case Decode example_lib errorResponse (Body res) of
              (er, Some err) \<Rightarrow> err
            | (er, None) \<Rightarrow> errors_New (string_of (field ''Message'' er)))))
      else ([HttpDo (the_request (example_client res) endpoint params)], Returns (Some res, None)))"
  by (simp add: Request_unfold example_client_sel example_lib_url)

lemma status_denied: "StatusCode (response_denied code) = code"
  by (simp add: response_denied_def)

lemma decode_denied:
  "Decode example_lib errorResponse (Body (response_denied 401)) =
     (VStruct [(''Success'', VBool False), (''Code'', VInt 401), (''Message'', VString ''denied'')], None)"
  "Decode example_lib errorResponse (Body (response_denied 403)) =
     (VStruct [(''Success'', VBool False), (''Code'', VInt 403), (''Message'', VString ''denied'')], None)"
  by code_simp+

lemma the_request_example:
  "the_request (example_client res) ''getstatus'' [] =
     \<lparr>Method = ''GET'',
      URL = ''https://data.talk2m.com/getstatus?t2maccount=aid&t2mdevid=devid&t2mpassword=password&t2musername=username'',
      Header = [(''User-Agent'', [''go-ewon/dmweb 0.1''])]\<rparr>"
  by (simp add: the_request_def example_client_def DefaultBaseURL_def DefaultUserAgent_def
      url_simps escape_simps)

subsection \<open>What an error carries\<close>

text \<open>
  Claim C4, as stated, fails. The claim says that the error returned for a non-200
  response keeps the numeric code of the envelope as structured metadata. The error is
  \<^verbatim>\<open>errors.New(er.Message)\<close>, which holds a text and nothing else: the envelopes
  \<^verbatim>\<open>{"success":false,"code":401,"message":"denied"}\<close> and
  \<^verbatim>\<open>{"success":false,"code":403,"message":"denied"}\<close> decode to the codes 401 and 403
  and give the same error.
\<close>

theorem error_code_dropped_counterexample:
  "snd (Request example_lib (example_client (response_denied 401)) ''getstatus'' [])
      = Returns (None, Some (errors_New ''denied''))
   \<and> snd (Request example_lib (example_client (response_denied 403)) ''getstatus'' [])
      = Returns (None, Some (errors_New ''denied''))
   \<and> field ''Code'' (fst (Decode example_lib errorResponse (Body (response_denied 401)))) = VInt 401
   \<and> field ''Code'' (fst (Decode example_lib errorResponse (Body (response_denied 403)))) = VInt 403"
  by (simp add: Request_example decode_denied status_denied)

text \<open>
  Claim C4, amended. For every non-200 response whose envelope decodes, the error
  returned is \<^verbatim>\<open>errors.New\<close> of the message: its text is the message, and two envelopes
  with the same message give the same error whatever their codes are. The code is not
  part of the error.
\<close>

theorem error_is_message_only:
  assumes "Client c = Some h" and "Client c' = Some h'"
      and "url_Parse lib (buildURL c endpoint params) = None"
      and "url_Parse lib (buildURL c' endpoint' params') = None"
      and "h (the_request c endpoint params) = (Some res, None)"
      and "h' (the_request c' endpoint' params') = (Some res', None)"
      and "StatusCode res \<noteq> 200" and "StatusCode res' \<noteq> 200"
      and "Decode lib errorResponse (Body res) = (er, None)"
      and "Decode lib errorResponse (Body res') = (er', None)"
      and "field ''Message'' er = field ''Message'' er'"
  shows "snd (Request lib c endpoint params) = Returns (None, Some (errors_New (string_of (field ''Message'' er))))
       \<and> snd (Request lib c' endpoint' params') = snd (Request lib c endpoint params)
       \<and> Error lib (errors_New (string_of (field ''Message'' er))) = string_of (field ''Message'' er)"
  using assms by (simp add: Request_unfold)

theorem error_is_message_only_witness:
  "snd (Request example_lib (example_client (response_denied 401)) ''getstatus'' [])
      = Returns (None, Some (errors_New ''denied''))
   \<and> snd (Request example_lib (example_client (response_denied 403)) ''getewons'' [])
      = snd (Request example_lib (example_client (response_denied 401)) ''getstatus'' [])
   \<and> Error example_lib (errors_New ''denied'') = ''denied''"
proof -
  have sc: "StatusCode (response_denied 401) \<noteq> 200" "StatusCode (response_denied 403) \<noteq> 200"
    by (simp_all add: status_denied)
  have m: "field ''Message'' (VStruct [(''Success'', VBool False), (''Code'', VInt 401), (''Message'', VString ''denied'')] :: (rat, string) goval)
      = field ''Message'' (VStruct [(''Success'', VBool False), (''Code'', VInt 403), (''Message'', VString ''denied'')])"
    by simp
  have t1: "(\<lambda>req. (Some (response_denied 401), None :: error option))
      (the_request (example_client (response_denied 401)) ''getstatus'' [])
      = (Some (response_denied 401), None)"
    by simp
  have t2: "(\<lambda>req. (Some (response_denied 403), None :: error option))
      (the_request (example_client (response_denied 403)) ''getewons'' [])
      = (Some (response_denied 403), None)"
    by simp
  show ?thesis
    using error_is_message_only [where endpoint = "''getstatus''" and params = "[]"
        and endpoint' = "''getewons''" and params' = "[]",
        OF example_client_sel(1) example_client_sel(1)
        example_lib_url example_lib_url t1 t2 sc decode_denied m]
    by simp
qed

subsection \<open>Results that come with an error\<close>

text \<open>
  Claim C5, as stated, fails. The claim says that no partially decoded result comes with
  a non-nil error. \<^verbatim>\<open>GetStatus\<close> ends with \<^verbatim>\<open>return &s, err\<close>: on the body
  \<^verbatim>\<open>{"historyCount":20732,"ewonsCount":"two"}\<close> it returns the error of the decoder
  together with a pointer to the struct in which \<^verbatim>\<open>HistoryCount\<close> is already 20732.
\<close>

theorem partial_result_counterexample:
  "snd (GetStatus example_lib (example_client response_partial)) =
     Returns (VPtr (VStruct [(''HistoryCount'', VInt 20732), (''EwonsCount'', VInt 0), (''Ewons'', VNil)]),
              Some (UnmarshalTypeError KString TInt))"
proof -
  have "Decode example_lib GetStatusResponse (Body response_partial) =
      (VStruct [(''HistoryCount'', VInt 20732), (''EwonsCount'', VInt 0), (''Ewons'', VNil)],
       Some (UnmarshalTypeError KString TInt))"
    by code_simp
  moreover have "StatusCode response_partial = 200"
    by (simp add: response_partial_def)
  ultimately show ?thesis
    by (simp add: GetStatus_def Request_example)
qed

text \<open>
  Claim C5, amended. When \<open>Request\<close> returns an error, the operation returns nil and
  that error. When \<open>Request\<close> returns a response, the operation returns what the
  decoder left in its target, and the error of the decoder if there is one: a pointer to
  the target, which is never nil, and for \<^verbatim>\<open>GetEwons\<close> the field \<^verbatim>\<open>Ewons\<close> of the target.
\<close>

theorem result_with_error:
  "snd (perform lib c op) =
     (case snd (Request lib c (endpoint_of op) (params_of op)) of
        Panics \<Rightarrow> Panics
      | Returns (res, Some err) \<Rightarrow> Returns (VNil, Some err)
      | Returns (None, None) \<Rightarrow> Panics
      | Returns (Some res, None) \<Rightarrow>
          Returns (result_of op (fst (Decode lib (target_of op) (Body res))),
                   snd (Decode lib (target_of op) (Body res))))
   \<and> result_of op s = (if op = OpGetEwons then field ''Ewons'' s else VPtr s)"
proof -
  have r: "result_of op s = (if op = OpGetEwons then field ''Ewons'' s else VPtr s)"
    by (cases op) simp_all
  have "snd (perform lib c op) =
     (case snd (Request lib c (endpoint_of op) (params_of op)) of
        Panics \<Rightarrow> Panics
      | Returns (res, Some err) \<Rightarrow> Returns (VNil, Some err)
      | Returns (None, None) \<Rightarrow> Panics
      | Returns (Some res, None) \<Rightarrow>
          Returns (result_of op (fst (Decode lib (target_of op) (Body res))),
                   snd (Decode lib (target_of op) (Body res))))"
  proof (cases "Request lib c (endpoint_of op) (params_of op)")
    case (Pair tr g)
    show ?thesis
    proof (cases g)
      case Panics
      with Pair show ?thesis
        by (simp add: perform_cases [OF Pair])
    next
      case (Returns p)
      obtain res err where p: "p = (res, err)"
        by (cases p)
      show ?thesis
        by (cases err; cases res) (simp_all add: perform_cases [OF Pair] Pair Returns p)
    qed
  qed
  with r show ?thesis
    by simp
qed

subsection \<open>The response body\<close>

text \<open>
  Claim C6, as stated, fails. The claim says that the body of the response is closed on
  every path before the operation returns. \<^verbatim>\<open>GetStatus\<close> on the answer of the tests
  sends its request, decodes the body and returns: the body is read and not closed.
\<close>

theorem body_left_open_counterexample:
  "fst (GetStatus example_lib (example_client response_status)) =
     [HttpDo \<lparr>Method = ''GET'',
              URL = ''https://data.talk2m.com/getstatus?t2maccount=aid&t2mdevid=devid&t2mpassword=password&t2musername=username'',
              Header = [(''User-Agent'', [''go-ewon/dmweb 0.1''])]\<rparr>,
      BodyRead]"
proof -
  have "StatusCode response_status = 200"
    by (simp add: response_status_def)
  then show ?thesis
    by (simp add: GetStatus_def Request_example the_request_example split_beta)
qed

text \<open>
  Claim C6, amended. No path of \<open>Request\<close>, of an exported operation or of
  \<^verbatim>\<open>getEwonByIdentifier\<close> closes a response body: the package never calls \<^verbatim>\<open>Close\<close>. A
  body that was obtained is still open when the call returns.
\<close>

theorem body_never_closed:
  "BodyClose \<notin> set (fst (Request lib c endpoint params))
   \<and> BodyClose \<notin> set (fst (perform lib c op))
   \<and> BodyClose \<notin> set (fst (getEwonByIdentifier lib c qp i))"
proof -
  have R: "BodyClose \<notin> set (fst (Request lib c e p))" for e p
    using Request_trace [of lib c e p] by auto
  have P: "BodyClose \<notin> set (fst (perform lib c op))"
    using perform_trace [of lib c op] R by auto
  have G: "BodyClose \<notin> set (fst (getEwonByIdentifier lib c qp i))"
    using getEwonByIdentifier_trace [of lib c qp i] R by auto
  from R P G show ?thesis
    by simp
qed

end
